theory Spec2Isabelle
  imports Main
begin

section \<open>The random-vector dataset of the PyTorch datasets notebook\<close>

text \<open>
  The notebook \<^verbatim>\<open>notebooks/class/2_work_with_pytorch_datasets.ipynb\<close> defines one
  class, \<^verbatim>\<open>RandomVectorDataset\<close>, and two sample transformations, \<^verbatim>\<open>Add2\<close> and
  \<^verbatim>\<open>ToTorchTensor\<close>, which it chains with torchvision's \<^verbatim>\<open>Compose\<close>.

  Python values are modelled by a datatype with one constructor for each kind of value
  the class can hold or return, exceptions by a sum type (\<open>Inl\<close> is the raised
  exception), and a method by a function of the object that returns the outcome together
  with the object as the method leaves it.

  The element type \<open>'a\<close> of an array is left open: the class never looks at an
  element, and \<^verbatim>\<open>Add2\<close> needs only the addition of the literal 2.
\<close>

subsection \<open>Exceptions and values\<close>

text \<open>
  The exceptions the modelled operations raise; \<open>OtherError\<close> stands for any exception
  that a transformation supplied by the caller raises.
\<close>

datatype error =
    IndexError
  | TypeError
  | ValueError
  | AttributeError
  | KeyError
  | OverflowError
  | OtherError string

text \<open>
  A NumPy array (and a torch tensor) is its shape and its elements in row-major order,
  as NumPy stores a freshly generated array. Reading an array copies nothing in NumPy
  (a row is a view); no code of the notebook writes to an array, so a row is modelled
  by its value.
\<close>

record 'a ndarray =
  shape :: "nat list"
  data :: "'a list"

datatype 'a pyval =
    PyFloat 'a
  | NpFloat64 'a
  | NdArray "'a ndarray"
  | Tensor "'a ndarray"

text \<open>A sample is a Python dict with string keys.\<close>

type_synonym 'a sample = "string \<rightharpoonup> 'a pyval"

text \<open>
  A transformation is a callable object taking a sample and returning a sample, or
  raising. The callables in the notebook keep no state and write nothing, so a callable
  is modelled as the function it computes.
\<close>

type_synonym 'a transform_fn = "'a sample \<Rightarrow> error + 'a sample"

subsection \<open>The library operations the class calls\<close>

text \<open>
  The limits of NumPy on a 64-bit platform: the largest value of its index type, and
  the largest number of axes of an array (64 since NumPy 2).
\<close>

definition NPY_MAX_INTP :: int where
  "NPY_MAX_INTP = 2 ^ 63 - 1"

definition NPY_MAXDIMS :: nat where
  "NPY_MAXDIMS = 64"

text \<open>
  \<^verbatim>\<open>np.random.randn(*dims)\<close>. With no dimension at all the result is a single Python
  float; otherwise an array of the given shape, of 8-byte elements. NumPy raises
  \<^verbatim>\<open>ValueError\<close> for a negative dimension, for a dimension beyond its index type, for
  more axes than it supports, and when the size in bytes, counted over the dimensions
  that are not zero, is beyond its index type. The generator is a parameter: \<open>rng k\<close>
  is the \<open>k\<close>-th number it draws for this call. The memory of the machine is not
  modelled: an array within these limits is taken to be allocated.
\<close>

definition randn :: "(nat \<Rightarrow> 'a) \<Rightarrow> int list \<Rightarrow> error + 'a pyval" where
  "randn rng dims =
     (if list_ex (\<lambda>d. d < 0 \<or> NPY_MAX_INTP < d) dims then Inl ValueError
      else if dims = [] then Inr (PyFloat (rng 0))
      else if NPY_MAXDIMS < length dims then Inl ValueError
      else if NPY_MAX_INTP < 8 * prod_list (filter (\<lambda>d. d \<noteq> 0) dims) then Inl ValueError
      else Inr (NdArray \<lparr>shape = map nat dims,
                          data = map rng [0 ..< prod_list (map nat dims)]\<rparr>))"

text \<open>
  NumPy's treatment of one integer index on an axis of length \<open>n\<close>: an index in
  \<open>[-n, n)\<close> is accepted, a negative one counting from the end. Any other raises
  \<^verbatim>\<open>IndexError\<close>, except an index from \<open>2^63\<close> up to \<open>2^64 - 1\<close>, which NumPy reads as
  an unsigned 64-bit number that does not fit its index type: that raises
  \<^verbatim>\<open>OverflowError\<close>. An axis is no longer than \<open>NPY_MAX_INTP\<close>, so such an index is
  never in range and the order of the two tests is immaterial.
\<close>

definition normalize_index :: "int \<Rightarrow> nat \<Rightarrow> error + nat" where
  "normalize_index idx n =
     (if - int n \<le> idx \<and> idx < int n
      then Inr (nat (if idx < 0 then idx + int n else idx))
      else if 2 ^ 63 \<le> idx \<and> idx < 2 ^ 64 then Inl OverflowError
      else Inl IndexError)"

text \<open>
  \<^verbatim>\<open>a[idx]\<close> for an array \<open>a\<close> and an integer \<open>idx\<close>: the index selects along the
  first axis. On a one-dimensional array the result is a NumPy scalar, otherwise the
  sub-array of the remaining axes. A zero-dimensional array takes no index.
\<close>

definition ndarray_getitem :: "'a ndarray \<Rightarrow> int \<Rightarrow> error + 'a pyval" where
  "ndarray_getitem a idx =
     (case shape a of
        [] \<Rightarrow> Inl IndexError
      | n # rest \<Rightarrow>
          (case normalize_index idx n of
             Inl e \<Rightarrow> Inl e
           | Inr j \<Rightarrow>
               (if rest = [] then Inr (NpFloat64 (data a ! j))
                else Inr (NdArray \<lparr>shape = rest,
                                    data = take (prod_list rest)
                                             (drop (j * prod_list rest) (data a))\<rparr>))))"

text \<open>
  \<^verbatim>\<open>v[idx]\<close> for any value: a Python float is not subscriptable (\<^verbatim>\<open>TypeError\<close>), a
  NumPy scalar rejects every index (\<^verbatim>\<open>IndexError\<close>), and a tensor is indexed as an
  array is, giving a tensor.
\<close>

fun subscript :: "'a pyval \<Rightarrow> int \<Rightarrow> error + 'a pyval" where
  "subscript (PyFloat x) idx = Inl TypeError"
| "subscript (NpFloat64 x) idx = Inl IndexError"
| "subscript (NdArray a) idx = ndarray_getitem a idx"
| "subscript (Tensor a) idx =
     (case shape a of
        [] \<Rightarrow> Inl IndexError
      | n # rest \<Rightarrow>
          (case normalize_index idx n of
             Inl e \<Rightarrow> Inl e
           | Inr j \<Rightarrow>
               Inr (Tensor \<lparr>shape = rest,
                            data = take (prod_list rest)
                                     (drop (j * prod_list rest) (data a))\<rparr>)))"

text \<open>
  \<^verbatim>\<open>v.shape[0]\<close>: a Python float has no attribute \<^verbatim>\<open>shape\<close>; the shape of a NumPy
  scalar is the empty tuple, which has no element 0.
\<close>

fun shape0 :: "'a pyval \<Rightarrow> error + int" where
  "shape0 (PyFloat x) = Inl AttributeError"
| "shape0 (NpFloat64 x) = Inl IndexError"
| "shape0 (NdArray a) = (case shape a of [] \<Rightarrow> Inl IndexError | n # rest \<Rightarrow> Inr (int n))"
| "shape0 (Tensor a) = (case shape a of [] \<Rightarrow> Inl IndexError | n # rest \<Rightarrow> Inr (int n))"

text \<open>\<^verbatim>\<open>v + c\<close> for a number \<open>c\<close>: the number is added to every element.\<close>

fun add_scalar :: "'a::plus pyval \<Rightarrow> 'a \<Rightarrow> 'a pyval" where
  "add_scalar (PyFloat x) c = PyFloat (x + c)"
| "add_scalar (NpFloat64 x) c = NpFloat64 (x + c)"
| "add_scalar (NdArray a) c = NdArray (a\<lparr>data := map (\<lambda>x. x + c) (data a)\<rparr>)"
| "add_scalar (Tensor a) c = Tensor (a\<lparr>data := map (\<lambda>x. x + c) (data a)\<rparr>)"

text \<open>\<^verbatim>\<open>torch.from_numpy(v)\<close> accepts a NumPy array only.\<close>

fun from_numpy :: "'a pyval \<Rightarrow> error + 'a pyval" where
  "from_numpy (NdArray a) = Inr (Tensor a)"
| "from_numpy v = Inl TypeError"

text \<open>
  torchvision's \<^verbatim>\<open>Compose(transforms)\<close> is a callable whose call runs
  \<^verbatim>\<open>for t in self.transforms: img = t(img)\<close> and returns \<^verbatim>\<open>img\<close>; an exception in
  one of the calls ends the loop.
\<close>

fun Compose :: "'a transform_fn list \<Rightarrow> 'a transform_fn" where
  "Compose [] img = Inr img"
| "Compose (t # ts) img =
     (case t img of Inl e \<Rightarrow> Inl e | Inr img' \<Rightarrow> Compose ts img')"

subsection \<open>The class \<^verbatim>\<open>RandomVectorDataset\<close>\<close>

record 'a RandomVectorDataset =
  raw_data :: "'a pyval"
  transform :: "'a transform_fn option"

text \<open>\<^verbatim>\<open>__init__(self, random_shape, transform=None)\<close>\<close>

definition init ::
  "(nat \<Rightarrow> 'a) \<Rightarrow> int list \<Rightarrow> 'a transform_fn option \<Rightarrow> error + 'a RandomVectorDataset" where
  "init rng random_shape t =
     (case randn rng random_shape of
        Inl e \<Rightarrow> Inl e
      | Inr arr \<Rightarrow> Inr \<lparr>raw_data = arr, transform = t\<rparr>)"

text \<open>\<^verbatim>\<open>__len__(self)\<close>\<close>

definition len :: "'a RandomVectorDataset \<Rightarrow> (error + int) \<times> 'a RandomVectorDataset" where
  "len self = (shape0 (raw_data self), self)"

text \<open>
  \<^verbatim>\<open>__getitem__(self, idx)\<close>. The test \<^verbatim>\<open>if self.transform:\<close> is false for \<^verbatim>\<open>None\<close>
  and true for a callable object such as \<^verbatim>\<open>Add2()\<close> or a \<^verbatim>\<open>Compose\<close>, which define
  neither \<^verbatim>\<open>__bool__\<close> nor \<^verbatim>\<open>__len__\<close>.
\<close>

definition getitem ::
  "'a RandomVectorDataset \<Rightarrow> int \<Rightarrow> (error + 'a sample) \<times> 'a RandomVectorDataset" where
  "getitem self idx =
     (case subscript (raw_data self) idx of
        Inl e \<Rightarrow> (Inl e, self)
      | Inr row \<Rightarrow>
          (let sample = [''random_vector'' \<mapsto> row] in
           case transform self of
             None \<Rightarrow> (Inr sample, self)
           | Some t \<Rightarrow> (t sample, self)))"

subsection \<open>The transformations of the notebook\<close>

text \<open>\<^verbatim>\<open>Add2.__call__\<close>; a dict without the key raises \<^verbatim>\<open>KeyError\<close>.\<close>

definition Add2 :: "'a::numeral transform_fn" where
  "Add2 sample =
     (case sample ''random_vector'' of
        None \<Rightarrow> Inl KeyError
      | Some v \<Rightarrow> Inr [''random_vector'' \<mapsto> add_scalar v 2])"

text \<open>\<^verbatim>\<open>ToTorchTensor.__call__\<close>\<close>

definition ToTorchTensor :: "'a transform_fn" where
  "ToTorchTensor sample =
     (case sample ''random_vector'' of
        None \<Rightarrow> Inl KeyError
      | Some v \<Rightarrow>
          (case from_numpy v of
             Inl e \<Rightarrow> Inl e
           | Inr t \<Rightarrow> Inr [''random_vector'' \<mapsto> t]))"

subsection \<open>The life of a dataset object\<close>



section \<open>Facts about the library operations\<close>

lemma normalize_index_in_range:
  "0 \<le> i \<Longrightarrow> i < int n \<Longrightarrow> normalize_index i n = Inr (nat i)"
  by (simp add: normalize_index_def)

lemma normalize_index_negative:
  "- int n \<le> i \<Longrightarrow> i < 0 \<Longrightarrow> normalize_index i n = Inr (nat (int n + i))"
  by (simp add: normalize_index_def add.commute)

lemma normalize_index_outside:
  "i < - int n \<or> int n \<le> i \<Longrightarrow>
   normalize_index i n = Inl (if 2 ^ 63 \<le> i \<and> i < 2 ^ 64 then OverflowError else IndexError)"
  by (auto simp: normalize_index_def)

text \<open>Only an array or a tensor with at least one axis has a \<^verbatim>\<open>shape[0]\<close>.\<close>

lemma shape0_Inr:
  "shape0 v = Inr n \<Longrightarrow>
     \<exists>a k rest. (v = NdArray a \<or> v = Tensor a) \<and> shape a = k # rest \<and> n = int k"
  by (cases v) (auto split: list.splits)

lemma subscript_outside:
  assumes "shape0 v = Inr n" and "i < - n \<or> n \<le> i"
  shows "subscript v i = Inl (if 2 ^ 63 \<le> i \<and> i < 2 ^ 64 then OverflowError else IndexError)"
  using shape0_Inr [OF assms(1)] assms(2)
  by (auto simp: ndarray_getitem_def normalize_index_outside)

lemma subscript_negative:
  assumes "shape0 v = Inr n" and "- n \<le> i" and "i < 0"
  shows "subscript v i = subscript v (n + i) \<and> (\<exists>row. subscript v i = Inr row)"
  using shape0_Inr [OF assms(1)] assms(2,3)
  by (auto simp: ndarray_getitem_def normalize_index_negative normalize_index_in_range)

lemma subscript_empty:
  "subscript (NdArray \<lparr>shape = 0 # rest, data = xs\<rparr>) i =
     Inl (if 2 ^ 63 \<le> i \<and> i < 2 ^ 64 then OverflowError else IndexError)"
  by (simp add: ndarray_getitem_def normalize_index_def)

text \<open>
  Row \<open>j\<close> of a freshly generated array with \<open>n\<close> rows of \<open>m\<close> elements each holds
  the draws \<open>j * m, \<dots>, j * m + m - 1\<close>.
\<close>

lemma row_slice:
  assumes "j < n"
  shows "take m (drop (j * m) (map rng [0 ..< n * m])) = map rng [j * m ..< j * m + m]"
proof -
  from assms have "Suc j * m \<le> n * m" by (intro mult_le_mono1) simp
  then have "j * m + m \<le> n * m" by (simp add: add.commute)
  then show ?thesis by (simp add: drop_map take_map)
qed

lemma subscript_generated:
  assumes "0 \<le> i" and "i < int n"
  shows "subscript (NdArray \<lparr>shape = n # rest, data = map rng [0 ..< n * prod_list rest]\<rparr>) i =
           Inr (if rest = [] then NpFloat64 (rng (nat i))
                else NdArray \<lparr>shape = rest,
                       data = map rng [nat i * prod_list rest ..<
                                       nat i * prod_list rest + prod_list rest]\<rparr>)"
proof -
  from assms have j: "nat i < n" by simp
  then show ?thesis
    using assms by (simp add: ndarray_getitem_def normalize_index_in_range row_slice)
qed

text \<open>\<^verbatim>\<open>Compose\<close> of a concatenation runs the first list, then the second.\<close>

lemma Compose_append:
  "Compose (ts @ us) img =
     (case Compose ts img of Inl e \<Rightarrow> Inl e | Inr img' \<Rightarrow> Compose us img')"
  by (induction ts arbitrary: img) (simp_all split: sum.split)

section \<open>Facts about the class\<close>

text \<open>
  What a successful construction from a non-empty shape gives: no dimension is negative,
  each is within the index type, and the object holds the generated array.
\<close>

lemma init_Inr:
  assumes "init rng (n # rest) t = Inr ds"
  shows "ds = \<lparr>raw_data = NdArray \<lparr>shape = nat n # map nat rest,
                    data = map rng [0 ..< nat n * prod_list (map nat rest)]\<rparr>, transform = t\<rparr>"
    and "0 \<le> n" and "n \<le> NPY_MAX_INTP"
  using assms by (auto simp: init_def randn_def not_less split: if_splits)

text \<open>The construction succeeds on every shape within the limits.\<close>

lemma init_within_limits:
  assumes "\<forall>d \<in> set (n # rest). 0 \<le> d \<and> d \<le> NPY_MAX_INTP"
    and "length (n # rest) \<le> NPY_MAXDIMS"
    and "8 * prod_list (filter (\<lambda>d. d \<noteq> 0) (n # rest)) \<le> NPY_MAX_INTP"
  shows "init rng (n # rest) t =
     Inr \<lparr>raw_data = NdArray \<lparr>shape = nat n # map nat rest,
                    data = map rng [0 ..< nat n * prod_list (map nat rest)]\<rparr>, transform = t\<rparr>"
proof -
  from assms(1) have a: "\<not> list_ex (\<lambda>d. d < 0 \<or> NPY_MAX_INTP < d) (n # rest)"
    unfolding list_ex_iff by (auto simp: not_less)
  from assms(2) have b: "\<not> NPY_MAXDIMS < length (n # rest)"
    by (simp only: not_less)
  from assms(3) have c: "\<not> NPY_MAX_INTP < 8 * prod_list (filter (\<lambda>d. d \<noteq> 0) (n # rest))"
    by (simp only: not_less)
  have "randn rng (n # rest) =
      Inr (NdArray \<lparr>shape = map nat (n # rest),
                     data = map rng [0 ..< prod_list (map nat (n # rest))]\<rparr>)"
    unfolding randn_def by (simp only: a b c if_False list.distinct)
  then show ?thesis by (simp add: init_def)
qed

text \<open>Shapes that NumPy refuses although no dimension is negative.\<close>

lemma init_beyond_limits:
  "init rng [2 ^ 63, 0] t = Inl ValueError"
  "init rng [0, 2 ^ 63] t = Inl ValueError"
  "init rng [2 ^ 62, 0] t = Inl ValueError"
  "init rng (replicate 65 1) t = Inl ValueError"
  by (simp_all add: init_def randn_def NPY_MAX_INTP_def NPY_MAXDIMS_def)

lemma init_negative:
  "d \<in> set random_shape \<Longrightarrow> d < 0 \<Longrightarrow> init rng random_shape t = Inl ValueError"
  by (auto simp: init_def randn_def list_ex_iff)




section \<open>The claims\<close>

subsection \<open>C1: indices outside the range\<close>

text \<open>
  C1 as stated, that \<^verbatim>\<open>get(i)\<close> fails for every \<open>i < 0\<close>, does not hold: on the
  dataset of shape \<open>[2, 2]\<close> generated from the draws \<open>0, 1, 2, 3\<close>, whose size is 2,
  the index \<open>-1\<close> is negative and \<^verbatim>\<open>get(-1)\<close> returns the sample of the last row.
\<close>

theorem getitem_negative_index_counterexample:
  "init int [2, 2] None =
     Inr \<lparr>raw_data = NdArray \<lparr>shape = [2, 2], data = [0, 1, 2, 3]\<rparr>, transform = None\<rparr>
   \<and> fst (len \<lparr>raw_data = NdArray \<lparr>shape = [2, 2], data = [0, 1, 2, 3 :: int]\<rparr>,
                transform = None\<rparr>) = Inr 2
   \<and> (- 1 :: int) < 0
   \<and> fst (getitem \<lparr>raw_data = NdArray \<lparr>shape = [2, 2], data = [0, 1, 2, 3 :: int]\<rparr>,
                    transform = None\<rparr> (- 1))
       = Inr [''random_vector'' \<mapsto> NdArray \<lparr>shape = [2], data = [2, 3]\<rparr>]
   \<and> fst (getitem \<lparr>raw_data = NdArray \<lparr>shape = [2, 2], data = [0, 1, 2, 3 :: int]\<rparr>,
                    transform = None\<rparr> (- 1))
       \<noteq> Inl IndexError"
  by (simp add: init_def randn_def NPY_MAX_INTP_def NPY_MAXDIMS_def len_def getitem_def
      ndarray_getitem_def normalize_index_def upt_rec)

text \<open>
  C1, amended: for every dataset whose size is \<open>n\<close> and every index \<open>idx\<close> with
  \<open>idx < -n\<close> or \<open>idx \<ge> n\<close>, \<^verbatim>\<open>get(idx)\<close> raises \<^verbatim>\<open>IndexError\<close>, or
  \<^verbatim>\<open>OverflowError\<close> when \<open>2^63 \<le> idx < 2^64\<close>, whatever transformation is
  configured: the exception reaches the caller and the object is left as it was.
\<close>

theorem getitem_out_of_range:
  assumes "fst (len self) = Inr n" and "idx < - n \<or> n \<le> idx"
  shows "getitem self idx =
           (Inl (if 2 ^ 63 \<le> idx \<and> idx < 2 ^ 64 then OverflowError else IndexError), self)"
proof -
  from assms(1) have "shape0 (raw_data self) = Inr n" by (simp add: len_def)
  then have "subscript (raw_data self) idx =
      Inl (if 2 ^ 63 \<le> idx \<and> idx < 2 ^ 64 then OverflowError else IndexError)"
    using assms(2) by (rule subscript_outside)
  then show ?thesis by (simp add: getitem_def)
qed

text \<open>
  Instances on the dataset of shape \<open>[2, 2]\<close>: the indices \<open>-3\<close> and \<open>2\<close> raise
  \<^verbatim>\<open>IndexError\<close>, the index \<open>2^63\<close> raises \<^verbatim>\<open>OverflowError\<close>.
\<close>

theorem getitem_out_of_range_witness:
  "fst (len \<lparr>raw_data = NdArray \<lparr>shape = [2, 2], data = [0, 1, 2, 3 :: int]\<rparr>,
              transform = None\<rparr>) = Inr 2
   \<and> ((- 3 :: int) < - 2 \<or> (2 :: int) \<le> - 3)
   \<and> getitem \<lparr>raw_data = NdArray \<lparr>shape = [2, 2], data = [0, 1, 2, 3 :: int]\<rparr>,
               transform = None\<rparr> (- 3)
       = (Inl IndexError,
          \<lparr>raw_data = NdArray \<lparr>shape = [2, 2], data = [0, 1, 2, 3 :: int]\<rparr>,
           transform = None\<rparr>)
   \<and> ((2 :: int) < - 2 \<or> (2 :: int) \<le> 2)
   \<and> getitem \<lparr>raw_data = NdArray \<lparr>shape = [2, 2], data = [0, 1, 2, 3 :: int]\<rparr>,
               transform = None\<rparr> 2
       = (Inl IndexError,
          \<lparr>raw_data = NdArray \<lparr>shape = [2, 2], data = [0, 1, 2, 3 :: int]\<rparr>,
           transform = None\<rparr>)
   \<and> ((2 ^ 63 :: int) < - 2 \<or> (2 :: int) \<le> 2 ^ 63)
   \<and> getitem \<lparr>raw_data = NdArray \<lparr>shape = [2, 2], data = [0, 1, 2, 3 :: int]\<rparr>,
               transform = None\<rparr> (2 ^ 63)
       = (Inl OverflowError,
          \<lparr>raw_data = NdArray \<lparr>shape = [2, 2], data = [0, 1, 2, 3 :: int]\<rparr>,
           transform = None\<rparr>)"
  using getitem_out_of_range
    [of "\<lparr>raw_data = NdArray \<lparr>shape = [2, 2], data = [0, 1, 2, 3 :: int]\<rparr>,
          transform = None\<rparr>" 2 "- 3"]
    getitem_out_of_range
    [of "\<lparr>raw_data = NdArray \<lparr>shape = [2, 2], data = [0, 1, 2, 3 :: int]\<rparr>,
          transform = None\<rparr>" 2 2]
    getitem_out_of_range
    [of "\<lparr>raw_data = NdArray \<lparr>shape = [2, 2], data = [0, 1, 2, 3 :: int]\<rparr>,
          transform = None\<rparr>" 2 "2 ^ 63"]
  by (simp add: len_def)

subsection \<open>C2: lookup without a transformation\<close>

text \<open>
  C2. When the construction with shape \<open>n # rest\<close> and no transformation succeeds,
  the dataset has size \<open>n\<close>, and for every index \<open>0 \<le> i < n\<close>, \<^verbatim>\<open>get(i)\<close> returns
  the sample that maps \<^verbatim>\<open>'random_vector'\<close> to row \<open>i\<close> of the generated array,
  unchanged: the draws of that row with the remaining shape, or the single draw \<open>i\<close>
  when the array has one axis.
\<close>

theorem getitem_no_transform:
  assumes "init rng (n # rest) None = Inr ds" and "0 \<le> i" and "i < n"
  shows "fst (len ds) = Inr n \<and>
         fst (getitem ds i) =
           Inr [''random_vector'' \<mapsto>
                  (if rest = [] then NpFloat64 (rng (nat i))
                   else NdArray \<lparr>shape = map nat rest,
                          data = map rng [nat i * prod_list (map nat rest) ..<
                                          nat i * prod_list (map nat rest)
                                            + prod_list (map nat rest)]\<rparr>)]"
proof -
  note ds = init_Inr(1) [OF assms(1)]
  have n: "0 \<le> n" by (rule init_Inr(2) [OF assms(1)])
  with assms(3) have "i < int (nat n)" by simp
  note row = subscript_generated [OF assms(2) this, of "map nat rest" rng]
  from n show ?thesis
    by (simp add: ds len_def getitem_def row del: subscript.simps)
qed

theorem getitem_no_transform_witness:
  "init int [2, 2] None =
     Inr \<lparr>raw_data = NdArray \<lparr>shape = [2, 2], data = [0, 1, 2, 3]\<rparr>, transform = None\<rparr>
   \<and> (0 :: int) \<le> 1 \<and> (1 :: int) < 2
   \<and> fst (len \<lparr>raw_data = NdArray \<lparr>shape = [2, 2], data = [0, 1, 2, 3 :: int]\<rparr>,
                transform = None\<rparr>) = Inr 2
   \<and> fst (getitem \<lparr>raw_data = NdArray \<lparr>shape = [2, 2], data = [0, 1, 2, 3 :: int]\<rparr>,
                    transform = None\<rparr> 1)
       = Inr [''random_vector'' \<mapsto> NdArray \<lparr>shape = [2], data = [2, 3]\<rparr>]"
proof -
  have built: "init int [2, 2] None =
      Inr \<lparr>raw_data = NdArray \<lparr>shape = [2, 2], data = [0, 1, 2, 3]\<rparr>, transform = None\<rparr>"
    by (simp add: init_def randn_def NPY_MAX_INTP_def NPY_MAXDIMS_def upt_rec)
  from getitem_no_transform [OF built, of 1] built show ?thesis
    by simp
qed

subsection \<open>C3: two transformations in order\<close>

text \<open>
  C3. With the transformation \<^verbatim>\<open>Compose([T1, T2])\<close>, \<^verbatim>\<open>get(idx)\<close> is \<open>T2\<close> applied to
  the result of \<open>T1\<close> on the raw sample, the raw sample being what \<^verbatim>\<open>get(idx)\<close> returns
  on the same data without a transformation; \<open>T1\<close> runs first, \<open>T2\<close> second, each
  once, and an exception of the lookup or of \<open>T1\<close> ends the call.
\<close>

theorem getitem_Compose_two:
  "fst (getitem \<lparr>raw_data = arr, transform = Some (Compose [T1, T2])\<rparr> idx) =
     (case fst (getitem \<lparr>raw_data = arr, transform = None\<rparr> idx) of
        Inl e \<Rightarrow> Inl e
      | Inr raw_sample \<Rightarrow>
          (case T1 raw_sample of Inl e \<Rightarrow> Inl e | Inr s1 \<Rightarrow> T2 s1))"
  by (simp add: getitem_def split: sum.split)

theorem getitem_Compose_two_witness:
  "fst (getitem \<lparr>raw_data = NdArray \<lparr>shape = [2, 2], data = [0, 1, 2, 3 :: int]\<rparr>,
                 transform = Some (Compose [Add2, ToTorchTensor])\<rparr> 1)
     = Inr [''random_vector'' \<mapsto> Tensor \<lparr>shape = [2], data = [4, 5]\<rparr>]"
  using getitem_Compose_two
    [of "NdArray \<lparr>shape = [2, 2], data = [0, 1, 2, 3 :: int]\<rparr>" Add2 ToTorchTensor 1]
  by (simp add: getitem_def ndarray_getitem_def normalize_index_def Add2_def ToTorchTensor_def)

subsection \<open>C4: the size is the leading dimension\<close>

text \<open>
  C4. A dataset constructed with shape \<open>n # rest\<close> has size \<open>n\<close>, whatever its
  transformation. In particular the construction with shape \<open>[10, 5]\<close> and no
  transformation succeeds, the dataset has size 10, and \<^verbatim>\<open>get(5)\<close> returns a sample
  whose array has shape \<open>[5]\<close>: the draws 25 to 29.
\<close>

theorem len_leading_dimension:
  "(init rng (n # rest) t = Inr ds \<longrightarrow> fst (len ds) = Inr n)
   \<and> (\<exists>ds. init rng [10, 5] None = Inr ds \<and> fst (len ds) = Inr 10 \<and>
         fst (getitem ds 5) =
           Inr [''random_vector'' \<mapsto> NdArray \<lparr>shape = [5], data = map rng [25 ..< 30]\<rparr>])"
proof (intro conjI impI)
  assume built: "init rng (n # rest) t = Inr ds"
  have "0 \<le> n" by (rule init_Inr(2) [OF built])
  then show "fst (len ds) = Inr n"
    by (simp add: init_Inr(1) [OF built] len_def)
next
  have "init rng [10, 5] None =
      Inr \<lparr>raw_data = NdArray \<lparr>shape = [10, 5], data = map rng [0 ..< 50]\<rparr>,
           transform = None\<rparr>"
    by (simp add: init_def randn_def NPY_MAX_INTP_def NPY_MAXDIMS_def)
  moreover have "subscript (NdArray \<lparr>shape = [10, 5], data = map rng [0 ..< 50]\<rparr>) 5 =
      Inr (NdArray \<lparr>shape = [5], data = map rng [25 ..< 30]\<rparr>)"
    using subscript_generated [of 5 10 "[5]" rng] by simp
  ultimately show "\<exists>ds. init rng [10, 5] None = Inr ds \<and> fst (len ds) = Inr 10 \<and>
         fst (getitem ds 5) =
           Inr [''random_vector'' \<mapsto> NdArray \<lparr>shape = [5], data = map rng [25 ..< 30]\<rparr>]"
    by (simp add: len_def getitem_def del: subscript.simps)
qed

theorem len_leading_dimension_witness:
  "init int [3, 2] None =
     Inr \<lparr>raw_data = NdArray \<lparr>shape = [3, 2], data = [0, 1, 2, 3, 4, 5]\<rparr>,
          transform = None\<rparr>
   \<and> fst (len \<lparr>raw_data = NdArray \<lparr>shape = [3, 2], data = [0, 1, 2, 3, 4, 5 :: int]\<rparr>,
                transform = None\<rparr>) = Inr 3"
proof -
  have built: "init int [3, 2] None =
      Inr \<lparr>raw_data = NdArray \<lparr>shape = [3, 2], data = [0, 1, 2, 3, 4, 5]\<rparr>,
           transform = None\<rparr>"
    by (simp add: init_def randn_def NPY_MAX_INTP_def NPY_MAXDIMS_def upt_rec)
  from len_leading_dimension
    [of int 3 "[2]" None
        "\<lparr>raw_data = NdArray \<lparr>shape = [3, 2], data = [0, 1, 2, 3, 4, 5]\<rparr>,
          transform = None\<rparr>"]
    built
  show ?thesis by blast
qed

subsection \<open>C5: an exception of the transformation\<close>

text \<open>
  C5. When the lookup succeeds and the configured transformation raises \<open>e\<close> on the
  raw sample, \<^verbatim>\<open>get(idx)\<close> raises exactly \<open>e\<close>: nothing is retried and no sample is
  returned in its place.
\<close>

theorem transform_error_propagates:
  assumes "transform self = Some t"
    and "subscript (raw_data self) idx = Inr row"
    and "t [''random_vector'' \<mapsto> row] = Inl e"
  shows "getitem self idx = (Inl e, self)"
  using assms by (simp add: getitem_def)

text \<open>
  An instance with the notebook's own classes: on a dataset with one axis a row is a
  NumPy scalar, which \<^verbatim>\<open>torch.from_numpy\<close> rejects.
\<close>

theorem transform_error_propagates_witness:
  "transform \<lparr>raw_data = NdArray \<lparr>shape = [3], data = [0, 1, 2 :: int]\<rparr>,
              transform = Some ToTorchTensor\<rparr> = Some ToTorchTensor
   \<and> subscript (raw_data \<lparr>raw_data = NdArray \<lparr>shape = [3], data = [0, 1, 2 :: int]\<rparr>,
                          transform = Some ToTorchTensor\<rparr>) 1 = Inr (NpFloat64 1)
   \<and> ToTorchTensor [''random_vector'' \<mapsto> NpFloat64 (1 :: int)] = Inl TypeError
   \<and> getitem \<lparr>raw_data = NdArray \<lparr>shape = [3], data = [0, 1, 2 :: int]\<rparr>,
               transform = Some ToTorchTensor\<rparr> 1
       = (Inl TypeError,
          \<lparr>raw_data = NdArray \<lparr>shape = [3], data = [0, 1, 2 :: int]\<rparr>,
           transform = Some ToTorchTensor\<rparr>)"
  using transform_error_propagates
    [of "\<lparr>raw_data = NdArray \<lparr>shape = [3], data = [0, 1, 2 :: int]\<rparr>,
          transform = Some ToTorchTensor\<rparr>" ToTorchTensor 1 "NpFloat64 1" TypeError]
  by (simp add: ndarray_getitem_def normalize_index_def ToTorchTensor_def)

subsection \<open>C6: the same lookup twice\<close>



subsection \<open>C7: the object never changes\<close>



subsection \<open>C8: a dataset of length zero\<close>

text \<open>
  C8. A dataset constructed with a shape whose leading dimension is 0 has size 0, and
  \<^verbatim>\<open>get(i)\<close> fails for every index \<open>i\<close>: with \<^verbatim>\<open>OverflowError\<close> when
  \<open>2^63 \<le> i < 2^64\<close>, with \<^verbatim>\<open>IndexError\<close> otherwise, whatever transformation is
  configured.
\<close>

theorem empty_dataset:
  assumes "init rng (0 # rest) t = Inr ds"
  shows "fst (len ds) = Inr 0 \<and>
         (\<forall>i. fst (getitem ds i) =
                 Inl (if 2 ^ 63 \<le> i \<and> i < 2 ^ 64 then OverflowError else IndexError))"
  by (simp add: init_Inr(1) [OF assms] len_def getitem_def subscript_empty
      del: subscript.simps)

theorem empty_dataset_witness:
  "init int [0, 5] None =
     Inr \<lparr>raw_data = NdArray \<lparr>shape = [0, 5], data = []\<rparr>, transform = None\<rparr>
   \<and> fst (len \<lparr>raw_data = NdArray \<lparr>shape = [0, 5], data = ([] :: int list)\<rparr>,
                transform = None\<rparr>) = Inr 0
   \<and> (\<forall>i. fst (getitem \<lparr>raw_data = NdArray \<lparr>shape = [0, 5], data = ([] :: int list)\<rparr>,
                          transform = None\<rparr> i)
             = Inl (if 2 ^ 63 \<le> i \<and> i < 2 ^ 64 then OverflowError else IndexError))"
proof -
  have built: "init int [0, 5] None =
      Inr \<lparr>raw_data = NdArray \<lparr>shape = [0, 5], data = []\<rparr>, transform = None\<rparr>"
    by (simp add: init_def randn_def NPY_MAX_INTP_def NPY_MAXDIMS_def)
  from empty_dataset [OF built] built show ?thesis
    by simp
qed

subsection \<open>C9: adding 2\<close>

text \<open>
  C9. Applying \<^verbatim>\<open>Add2\<close> to a sample whose value is the vector \<open>[1,1,1,1,1]\<close> gives
  the sample whose value is \<open>[3,3,3,3,3]\<close>, in every numeric element type.
\<close>

theorem Add2_ones:
  "Add2 [''random_vector'' \<mapsto> NdArray \<lparr>shape = [5], data = [1, 1, 1, 1, 1]\<rparr>]
     = Inr [''random_vector'' \<mapsto> NdArray \<lparr>shape = [5], data = [3, 3, 3, 3, 3]\<rparr>]"
  by (simp add: Add2_def)

subsection \<open>C10: negative indices\<close>

text \<open>
  C10 as stated, that \<^verbatim>\<open>get(i)\<close> succeeds for every dataset and every \<open>-n \<le> i < 0\<close>,
  does not hold when the transformation raises: on the dataset of shape \<open>[3]\<close> with
  the transformation \<^verbatim>\<open>ToTorchTensor\<close>, whose size is 3, the lookup of index \<open>-1\<close>
  gives a NumPy scalar and \<^verbatim>\<open>get(-1)\<close> raises the \<^verbatim>\<open>TypeError\<close> of
  \<^verbatim>\<open>torch.from_numpy\<close>.
\<close>

theorem getitem_negative_index_fails_counterexample:
  "init int [3] (Some ToTorchTensor) =
     Inr \<lparr>raw_data = NdArray \<lparr>shape = [3], data = [0, 1, 2]\<rparr>,
          transform = Some ToTorchTensor\<rparr>
   \<and> fst (len \<lparr>raw_data = NdArray \<lparr>shape = [3], data = [0, 1, 2 :: int]\<rparr>,
                transform = Some ToTorchTensor\<rparr>) = Inr 3
   \<and> (0 :: int) < 3 \<and> - 3 \<le> (- 1 :: int) \<and> (- 1 :: int) < 0
   \<and> fst (getitem \<lparr>raw_data = NdArray \<lparr>shape = [3], data = [0, 1, 2 :: int]\<rparr>,
                    transform = Some ToTorchTensor\<rparr> (- 1)) = Inl TypeError"
  by (simp add: init_def randn_def NPY_MAX_INTP_def NPY_MAXDIMS_def len_def getitem_def
      ndarray_getitem_def normalize_index_def ToTorchTensor_def upt_rec)

text \<open>
  C10, amended: for every dataset of size \<open>n > 0\<close> and every index \<open>-n \<le> idx < 0\<close>,
  \<^verbatim>\<open>get(idx)\<close> has the outcome of \<^verbatim>\<open>get(n + idx)\<close>; its lookup does not fail, and the
  call returns the sample of the row found when no transformation is configured, and
  otherwise whatever the transformation returns or raises on that sample.
\<close>

theorem getitem_negative_index:
  assumes "fst (len self) = Inr n" and "0 < n" and "- n \<le> idx" and "idx < 0"
  shows "getitem self idx = getitem self (n + idx) \<and>
         (\<exists>row. subscript (raw_data self) idx = Inr row \<and>
            fst (getitem self idx) =
              (case transform self of
                 None \<Rightarrow> Inr [''random_vector'' \<mapsto> row]
               | Some t \<Rightarrow> t [''random_vector'' \<mapsto> row]))"
proof -
  from assms(1) have "shape0 (raw_data self) = Inr n" by (simp add: len_def)
  from subscript_negative [OF this assms(3,4)]
  obtain row where eq: "subscript (raw_data self) idx = subscript (raw_data self) (n + idx)"
    and row: "subscript (raw_data self) idx = Inr row"
    by blast
  from eq have "getitem self idx = getitem self (n + idx)"
    by (simp add: getitem_def)
  moreover from row have "fst (getitem self idx) =
      (case transform self of
         None \<Rightarrow> Inr [''random_vector'' \<mapsto> row]
       | Some t \<Rightarrow> t [''random_vector'' \<mapsto> row])"
    by (simp add: getitem_def split: option.split)
  ultimately show ?thesis using row by blast
qed

theorem getitem_negative_index_witness:
  "fst (len \<lparr>raw_data = NdArray \<lparr>shape = [2, 2], data = [0, 1, 2, 3 :: int]\<rparr>,
              transform = None\<rparr>) = Inr 2
   \<and> (0 :: int) < 2 \<and> - 2 \<le> (- 1 :: int) \<and> (- 1 :: int) < 0
   \<and> getitem \<lparr>raw_data = NdArray \<lparr>shape = [2, 2], data = [0, 1, 2, 3 :: int]\<rparr>,
               transform = None\<rparr> (- 1)
       = getitem \<lparr>raw_data = NdArray \<lparr>shape = [2, 2], data = [0, 1, 2, 3 :: int]\<rparr>,
                  transform = None\<rparr> (2 + - 1)
   \<and> fst (getitem \<lparr>raw_data = NdArray \<lparr>shape = [2, 2], data = [0, 1, 2, 3 :: int]\<rparr>,
                    transform = None\<rparr> (- 1))
       = Inr [''random_vector'' \<mapsto> NdArray \<lparr>shape = [2], data = [2, 3]\<rparr>]"
  using getitem_negative_index
    [of "\<lparr>raw_data = NdArray \<lparr>shape = [2, 2], data = [0, 1, 2, 3 :: int]\<rparr>,
          transform = None\<rparr>" 2 "- 1"]
  by (simp add: len_def getitem_def ndarray_getitem_def normalize_index_def)

end
